theory Spec2Isabelle
  imports Complex_Main "HOL-Library.Char_ord" "HOL-Library.List_Lexorder"
begin

section \<open>Text: characters, lower-casing, word characters\<close>

text \<open>
  A Python \<open>str\<close> is a sequence of code points. The model uses \<^typ>\<open>string\<close>, whose
  characters are the code points U+0000 to U+00FF (ASCII and Latin-1); on that range
  \<open>str.lower\<close> and the class \<open>\w\<close> of the \<open>re\<close> module are written out below as
  Python 3 has them.
\<close>

definition is_ascii_upper :: "char \<Rightarrow> bool" where
  "is_ascii_upper c \<longleftrightarrow> CHR ''A'' \<le> c \<and> c \<le> CHR ''Z''"

definition is_ascii_lower :: "char \<Rightarrow> bool" where
  "is_ascii_lower c \<longleftrightarrow> CHR ''a'' \<le> c \<and> c \<le> CHR ''z''"

definition is_ascii_letter :: "char \<Rightarrow> bool" where
  "is_ascii_letter c \<longleftrightarrow> is_ascii_lower c \<or> is_ascii_upper c"

definition is_ascii_digit :: "char \<Rightarrow> bool" where
  "is_ascii_digit c \<longleftrightarrow> CHR ''0'' \<le> c \<and> c \<le> CHR ''9''"

text \<open>The upper-case letters of Latin-1 above ASCII: U+00C0 to U+00DE without the
  multiplication sign U+00D7.\<close>

definition is_latin1_upper :: "char \<Rightarrow> bool" where
  "is_latin1_upper c \<longleftrightarrow> CHR 0xC0 \<le> c \<and> c \<le> CHR 0xDE \<and> c \<noteq> CHR 0xD7"

definition is_upper :: "char \<Rightarrow> bool" where
  "is_upper c \<longleftrightarrow> is_ascii_upper c \<or> is_latin1_upper c"

text \<open>\<open>str.lower()\<close>, character by character: an upper-case letter moves up by 32.\<close>

definition lower_char :: "char \<Rightarrow> char" where
  "lower_char c = (if is_upper c then char_of (of_char c + (32::nat)) else c)"

definition lower :: "string \<Rightarrow> string" where
  "lower s = map lower_char s"

text \<open>The class \<open>\w\<close> for a \<open>str\<close> pattern: alphanumeric code points and the underscore.
  Above ASCII these are U+00AA, U+00B2, U+00B3, U+00B5, U+00B9, U+00BA, U+00BC to U+00BE,
  and the letters U+00C0 to U+00FF without U+00D7 and U+00F7.\<close>

definition is_latin1_alnum :: "char \<Rightarrow> bool" where
  "is_latin1_alnum c \<longleftrightarrow>
     c \<in> set [CHR 0xAA, CHR 0xB2, CHR 0xB3, CHR 0xB5, CHR 0xB9, CHR 0xBA,
              CHR 0xBC, CHR 0xBD, CHR 0xBE]
     \<or> (CHR 0xC0 \<le> c \<and> c \<noteq> CHR 0xD7 \<and> c \<noteq> CHR 0xF7)"

definition is_word_char :: "char \<Rightarrow> bool" where
  "is_word_char c \<longleftrightarrow>
     is_ascii_letter c \<or> is_ascii_digit c \<or> c = CHR ''_'' \<or> is_latin1_alnum c"

section \<open>The regular expressions of the matcher\<close>

text \<open>
  The three patterns of \<open>extract_skills\<close> are sequences of: the assertion \<open>\b\<close>, one
  character of a class, and a greedy \<open>+\<close> over a class. \<open>re_match\<close> is the backtracking
  matcher at one position: it gets the character before the position (\<open>None\<close> at the
  start of the text) and the rest of the text, and returns the length of the match
  that Python finds first (the greedy \<open>+\<close> tries the longer alternative first).
\<close>

datatype re_item = WordBoundary | Single "char \<Rightarrow> bool" | OneOrMore "char \<Rightarrow> bool"

type_synonym pattern = "re_item list"

definition word_before :: "char option \<Rightarrow> bool" where
  "word_before prev = (case prev of None \<Rightarrow> False | Some c \<Rightarrow> is_word_char c)"

definition word_after :: "string \<Rightarrow> bool" where
  "word_after s = (case s of [] \<Rightarrow> False | c # _ \<Rightarrow> is_word_char c)"

definition at_boundary :: "char option \<Rightarrow> string \<Rightarrow> bool" where
  "at_boundary prev s \<longleftrightarrow> word_before prev \<noteq> word_after s"

fun re_match :: "pattern \<Rightarrow> char option \<Rightarrow> string \<Rightarrow> nat option" where
  "re_match [] prev s = Some 0"
| "re_match (WordBoundary # ps) prev s =
     (if at_boundary prev s then re_match ps prev s else None)"
| "re_match (Single P # ps) prev [] = None"
| "re_match (Single P # ps) prev (c # s) =
     (if P c then map_option Suc (re_match ps (Some c) s) else None)"
| "re_match (OneOrMore P # ps) prev [] = None"
| "re_match (OneOrMore P # ps) prev (c # s) =
     (if P c then
        (case re_match (OneOrMore P # ps) (Some c) s of
           Some n \<Rightarrow> Some (Suc n)
         | None \<Rightarrow> map_option Suc (re_match ps (Some c) s))
      else None)"

text \<open>\<open>re.search\<close>: is there a position of the text where the pattern matches.\<close>

fun re_search_from :: "pattern \<Rightarrow> char option \<Rightarrow> string \<Rightarrow> bool" where
  "re_search_from p prev [] = (re_match p prev [] \<noteq> None)"
| "re_search_from p prev (c # s) =
     (re_match p prev (c # s) \<noteq> None \<or> re_search_from p (Some c) s)"

definition re_search :: "pattern \<Rightarrow> string \<Rightarrow> bool" where
  "re_search p s = re_search_from p None s"

text \<open>\<open>re.finditer\<close> and \<open>re.findall\<close> (no groups): the matched substrings, from left to
  right, without overlap. The counter is the number of characters still covered by
  the match found last.\<close>

fun re_scan :: "pattern \<Rightarrow> nat \<Rightarrow> char option \<Rightarrow> string \<Rightarrow> string list" where
  "re_scan p k prev [] =
     (if k = 0 \<and> re_match p prev [] \<noteq> None then [[]] else [])"
| "re_scan p k prev (c # s) =
     (if 0 < k then re_scan p (k - 1) (Some c) s
      else (case re_match p prev (c # s) of
              Some n \<Rightarrow> take n (c # s) # re_scan p (n - 1) (Some c) s
            | None \<Rightarrow> re_scan p 0 (Some c) s))"

definition re_findall :: "pattern \<Rightarrow> string \<Rightarrow> string list" where
  "re_findall p s = re_scan p 0 None s"

text \<open>\<open>re.escape(skill)\<close> is the pattern that matches \<open>skill\<close> literally.\<close>

definition re_escape :: "string \<Rightarrow> pattern" where
  "re_escape skill = map (\<lambda>c. Single (\<lambda>d. d = c)) skill"

text \<open>\<open>r'\b' + re.escape(skill) + r'\b'\<close>\<close>

definition skill_pattern :: "string \<Rightarrow> pattern" where
  "skill_pattern skill = WordBoundary # re_escape skill @ [WordBoundary]"

text \<open>\<open>r'\b[A-Z][A-Z]+\b'\<close>\<close>

definition abbrev_pattern :: pattern where
  "abbrev_pattern = [WordBoundary, Single is_ascii_upper, OneOrMore is_ascii_upper, WordBoundary]"

text \<open>\<open>r'\b[a-zA-Z][a-zA-Z\-\.]+\b'\<close>\<close>

definition is_phrase_char :: "char \<Rightarrow> bool" where
  "is_phrase_char c \<longleftrightarrow> is_ascii_letter c \<or> c = CHR ''-'' \<or> c = CHR ''.''"

definition word_pattern :: pattern where
  "word_pattern = [WordBoundary, Single is_ascii_letter, OneOrMore is_phrase_char, WordBoundary]"

section \<open>The vocabulary\<close>

text \<open>The sets built by \<open>SkillMatcher.__init__\<close>, in the order of the source text.\<close>

definition common_tech_skills :: "string list" where
  "common_tech_skills =
    [''python'', ''java'', ''javascript'', ''typescript'', ''c++'', ''c#'', ''ruby'', ''php'', ''swift'',
     ''kotlin'', ''Golang'', ''Go'', ''rust'', ''html'', ''css'', ''react'', ''angular'', ''vue'', ''node.js'', ''express'',
     ''django'', ''flask'', ''spring'', ''hibernate'', ''docker'', ''kubernetes'', ''aws'', ''azure'',
     ''gcp'', ''terraform'', ''jenkins'', ''github actions'', ''circleci'', ''travis'', ''git'', ''svn'',
     ''sql'', ''mysql'', ''postgresql'', ''mongodb'', ''redis'', ''elasticsearch'', ''kafka'', ''rabbitmq'',
     ''tensorflow'', ''pytorch'', ''scikit-learn'', ''pandas'', ''numpy'', ''matplotlib'', ''tableau'',
     ''power bi'', ''excel'', ''jira'', ''confluence'', ''agile'', ''scrum'', ''kanban'', ''rest api'',
     ''graphql'', ''oauth'', ''jwt'', ''microservices'', ''devops'', ''ci/cd'', ''machine learning'',
     ''deep learning'', ''nlp'', ''data analysis'', ''data science'', ''big data'', ''hadoop'', ''spark'']"

definition skill_categories :: "(string \<times> string list) list" where
  "skill_categories =
    [(''programming_languages'',
       [''python'', ''java'', ''c++'', ''c#'', ''javascript'', ''typescript'', ''ruby'', ''go'', ''rust'',
        ''php'', ''scala'', ''kotlin'', ''swift'', ''r'', ''perl'', ''bash'', ''powershell'', ''sql'']),
     (''frontend'',
       [''html'', ''css'', ''javascript'', ''react'', ''angular'', ''vue'', ''redux'', ''bootstrap'',
        ''tailwind'', ''jquery'', ''webpack'', ''sass'', ''less'', ''typescript'', ''next.js'', ''gatsby'']),
     (''backend'',
       [''node.js'', ''express'', ''django'', ''flask'', ''spring'', ''laravel'', ''ruby on rails'',
        ''asp.net'', ''fastapi'', ''graphql'', ''rest api'', ''websockets'', ''microservices'']),
     (''databases'',
       [''sql'', ''mysql'', ''postgresql'', ''mongodb'', ''sqlite'', ''oracle'', ''dynamodb'', ''redis'',
        ''cassandra'', ''elasticsearch'', ''firebase'', ''mariadb'', ''neo4j'', ''couchbase'']),
     (''devops'',
       [''docker'', ''kubernetes'', ''jenkins'', ''gitlab ci'', ''github actions'', ''terraform'',
        ''ansible'', ''puppet'', ''chef'', ''aws'', ''azure'', ''gcp'', ''ci/cd'', ''prometheus'', ''grafana'']),
     (''data_science'',
       [''python'', ''r'', ''pandas'', ''numpy'', ''matplotlib'', ''scikit-learn'', ''tensorflow'',
        ''pytorch'', ''keras'', ''jupyter'', ''tableau'', ''power bi'', ''machine learning'',
        ''deep learning'', ''statistics'', ''data visualization'', ''big data'', ''data mining'']),
     (''soft_skills'',
       [''leadership'', ''communication'', ''teamwork'', ''problem solving'', ''critical thinking'',
        ''time management'', ''project management'', ''creativity'', ''adaptability'', ''collaboration''])]"

text \<open>\<open>all_skills\<close>: every category set, then the common skills, folded into one set.\<close>

definition all_skills_list :: "string list" where
  "all_skills_list = concat (map snd skill_categories) @ common_tech_skills"

definition all_skills :: "string set" where
  "all_skills = set all_skills_list"

section \<open>Skill extraction\<close>

text \<open>A Python value as the matcher may receive it: \<open>None\<close>, a \<open>str\<close>, or another object
  (an \<open>int\<close> stands for those). Only a \<open>str\<close> has the method \<open>lower\<close>.\<close>

datatype py_value = PyNone | PyStr string | PyInt int

datatype py_error = AttributeError | TypeError

fun truthy :: "py_value \<Rightarrow> bool" where
  "truthy PyNone = False"
| "truthy (PyStr s) = (s \<noteq> [])"
| "truthy (PyInt i) = (i \<noteq> 0)"

fun py_lower :: "py_value \<Rightarrow> py_error + string" where
  "py_lower (PyStr s) = Inr (lower s)"
| "py_lower v = Inl AttributeError"

text \<open>\<open>' '.join(xs)\<close>\<close>

fun join_space :: "string list \<Rightarrow> string" where
  "join_space [] = []"
| "join_space [w] = w"
| "join_space (w # ws) = w @ '' '' @ join_space ws"

text \<open>\<open>[' '.join(words[i:i+n]) for i in range(len(words) - (n - 1))]\<close>; the range is
  empty when there are fewer than \<open>n\<close> words.\<close>

definition ngrams :: "nat \<Rightarrow> string list \<Rightarrow> string list" where
  "ngrams n ws = map (\<lambda>i. join_space (take n (drop i ws))) [0 ..< length ws - (n - 1)]"

text \<open>The first pass: the vocabulary terms found as whole words in the lower-cased text.\<close>

definition known_skills :: "string \<Rightarrow> string list" where
  "known_skills text_lower =
     filter (\<lambda>skill. re_search (skill_pattern skill) text_lower) all_skills_list"

text \<open>The second pass, on the text as given: runs of capitals, lower-cased.\<close>

definition abbreviations :: "string \<Rightarrow> string list" where
  "abbreviations text =
     filter (\<lambda>a. 2 \<le> length a) (map lower (re_findall abbrev_pattern text))"

text \<open>The third pass: two- and three-word windows that are vocabulary terms.\<close>

definition phrases :: "string \<Rightarrow> string list" where
  "phrases text_lower =
     (let ws = re_findall word_pattern text_lower
      in filter (\<lambda>phrase. phrase \<in> all_skills) (ngrams 2 ws @ ngrams 3 ws))"

text \<open>\<open>re.finditer(pattern, text)\<close> wants a \<open>str\<close> to scan.\<close>

fun re_subject :: "py_value \<Rightarrow> py_error + string" where
  "re_subject (PyStr s) = Inr s"
| "re_subject v = Inl TypeError"

definition extract_skills :: "py_value \<Rightarrow> py_error + string set" where
  "extract_skills text =
     (if \<not> truthy text then Inr {}
      else (case py_lower text of
              Inl e \<Rightarrow> Inl e
            | Inr text_lower \<Rightarrow>
                (case re_subject text of
                   Inl e \<Rightarrow> Inl e
                 | Inr t \<Rightarrow>
                     Inr (set (known_skills text_lower) \<union> set (abbreviations t)
                          \<union> set (phrases text_lower)))))"

section \<open>Similarity and the match engine\<close>

text \<open>
  The numbers of \<open>analyze\<close> are Python floats. The model does not fix their arithmetic:
  it takes the float operations that \<open>analyze\<close> uses as a parameter, over any type \<open>'f\<close>
  of float values.
\<close>

record 'f float_ops =
  fl_lit :: "rat \<Rightarrow> 'f"
  fl_add :: "'f \<Rightarrow> 'f \<Rightarrow> 'f"
  fl_mul :: "'f \<Rightarrow> 'f \<Rightarrow> 'f"
  fl_truediv :: "nat \<Rightarrow> nat \<Rightarrow> 'f"
  fl_round :: "'f \<Rightarrow> nat \<Rightarrow> 'f"

text \<open>
  \<open>fl_lit q\<close> is the float of a literal (\<open>0.0\<close>, \<open>0.5\<close>) or of an \<open>int\<close> operand (\<open>0\<close>,
  \<open>100\<close>); \<open>fl_truediv m n\<close> is \<open>m / n\<close> on two lengths; \<open>fl_round x d\<close> is \<open>round(x, d)\<close>.

  The similarity itself comes from scikit-learn:
  \<open>cosine_similarity(self.vectorizer.fit_transform(documents))[0, 1]\<close>. It is the
  parameter \<open>cosine\<close> below, a function of the two documents that returns \<open>None\<close> where
  the library raises.
\<close>

type_synonym 'f vectorizer_cosine = "string \<Rightarrow> string \<Rightarrow> 'f option"

definition calculate_similarity ::
  "'f float_ops \<Rightarrow> 'f vectorizer_cosine \<Rightarrow> py_value \<Rightarrow> py_value \<Rightarrow> py_error + 'f" where
  "calculate_similarity F cosine resume_text job_text =
     (if \<not> truthy resume_text \<or> \<not> truthy job_text then Inr (fl_lit F 0)
      else (case py_lower resume_text of
              Inl e \<Rightarrow> Inl e
            | Inr resume_lower \<Rightarrow>
                (case py_lower job_text of
                   Inl e \<Rightarrow> Inl e
                 | Inr job_lower \<Rightarrow>
                     (case cosine resume_lower job_lower of
                        Some similarity \<Rightarrow> Inr similarity
                      | None \<Rightarrow> Inr (fl_lit F 0)))))"

definition find_matching_skills :: "string set \<Rightarrow> string set \<Rightarrow> string set" where
  "find_matching_skills resume_skills job_skills = resume_skills \<inter> job_skills"

definition find_missing_skills :: "string set \<Rightarrow> string set \<Rightarrow> string set \<Rightarrow> string set" where
  "find_missing_skills resume_skills job_skills matching_skills = job_skills - matching_skills"

record skill_count =
  resume :: nat
  job_description :: nat
  matching :: nat
  missing :: nat

record 'f analysis_result =
  match_percentage :: 'f
  resume_skills :: "string list"
  job_required_skills :: "string list"
  matching_skills :: "string list"
  missing_skills :: "string list"
  skill_count :: skill_count

definition analyze ::
  "'f float_ops \<Rightarrow> 'f vectorizer_cosine \<Rightarrow> py_value \<Rightarrow> py_value
     \<Rightarrow> py_error + 'f analysis_result" where
  "analyze F cosine resume_text job_desc_text =
     (case extract_skills resume_text of
        Inl e \<Rightarrow> Inl e
      | Inr rs \<Rightarrow>
     (case extract_skills job_desc_text of
        Inl e \<Rightarrow> Inl e
      | Inr js \<Rightarrow>
     (let ms = find_matching_skills rs js;
          xs = find_missing_skills rs js ms
      in (case calculate_similarity F cosine resume_text job_desc_text of
            Inl e \<Rightarrow> Inl e
          | Inr text_similarity \<Rightarrow>
         (let coverage = (if js \<noteq> {} then fl_truediv F (card ms) (card js) else fl_lit F 0);
              percentage =
                fl_mul F (fl_add F (fl_mul F text_similarity (fl_lit F (1 / 2)))
                                   (fl_mul F coverage (fl_lit F (1 / 2))))
                         (fl_lit F 100)
          in Inr \<lparr>match_percentage = fl_round F percentage 2,
                  resume_skills = sorted_list_of_set rs,
                  job_required_skills = sorted_list_of_set js,
                  matching_skills = sorted_list_of_set ms,
                  missing_skills = sorted_list_of_set xs,
                  skill_count = \<lparr>resume = card rs, job_description = card js,
                                 matching = card ms, missing = card xs\<rparr>\<rparr>)))))"

text \<open>Exact arithmetic as one instance of the float operations, to run the model:
  no rounding error, and \<open>round\<close> to the nearest multiple of \<open>10 ^ -d\<close>, a tie to the even
  one.\<close>

definition round_half_even :: "rat \<Rightarrow> int" where
  "round_half_even x =
     (let f = \<lfloor>x\<rfloor>; d = x - of_int f
      in if d < 1 / 2 then f else if 1 / 2 < d then f + 1 else if even f then f else f + 1)"

definition exact_ops :: "rat float_ops" where
  "exact_ops =
     \<lparr>fl_lit = (\<lambda>q. q), fl_add = (+), fl_mul = (*),
      fl_truediv = (\<lambda>m n. of_nat m / of_nat n),
      fl_round = (\<lambda>x d. of_int (round_half_even (x * 10 ^ d)) / 10 ^ d)\<rparr>"

section \<open>Notions used to state the properties\<close>

text \<open>The character before the position reached after \<open>pre\<close>, when \<open>prev\<close> is the
  character before \<open>pre\<close>.\<close>

definition char_before :: "char option \<Rightarrow> string \<Rightarrow> char option" where
  "char_before prev pre = (if pre = [] then prev else Some (last pre))"


text \<open>A lowercase term has no upper-case letter, of ASCII or of Latin-1.\<close>

definition is_lowercase :: "string \<Rightarrow> bool" where
  "is_lowercase x \<longleftrightarrow> (\<forall>c\<in>set x. \<not> is_upper c)"


text \<open>\<open>run\<close>, standing between \<open>pre\<close> and \<open>post\<close>, is a whole-word run of two or more
  capital letters \<open>A\<close> to \<open>Z\<close>: the characters next to it, if any, are no word characters.\<close>

definition whole_word_upper_run :: "string \<Rightarrow> string \<Rightarrow> string \<Rightarrow> bool" where
  "whole_word_upper_run pre run post \<longleftrightarrow>
     2 \<le> length run \<and> (\<forall>c\<in>set run. is_ascii_upper c)
     \<and> (pre = [] \<or> \<not> is_word_char (last pre))
     \<and> (post = [] \<or> \<not> is_word_char (hd post))"


text \<open>The formulas of the specification for the coverage and the match percentage, in the
  float operations of the code: coverage is the share of the required skills that match,
  \<open>0\<close> when none is required; the percentage is
  \<open>round((similarity * 0.5 + coverage * 0.5) * 100, 2)\<close>.\<close>

definition spec_coverage :: "'f float_ops \<Rightarrow> string set \<Rightarrow> string set \<Rightarrow> 'f" where
  "spec_coverage F matching_set job_set =
     (if job_set \<noteq> {} then fl_truediv F (card matching_set) (card job_set) else fl_lit F 0)"

definition spec_match_percentage :: "'f float_ops \<Rightarrow> 'f \<Rightarrow> 'f \<Rightarrow> 'f" where
  "spec_match_percentage F similarity coverage =
     fl_round F
       (fl_mul F (fl_add F (fl_mul F similarity (fl_lit F (1 / 2)))
                           (fl_mul F coverage (fl_lit F (1 / 2))))
                 (fl_lit F 100)) 2"


text \<open>The two texts of the end-to-end scenario.\<close>

abbreviation example_resume :: string where
  "example_resume \<equiv> ''Proficient in Python and SQL, 3 years Docker experience''"

abbreviation example_job :: string where
  "example_job \<equiv> ''Looking for a Python developer with SQL and Kubernetes skills''"


text \<open>
  Float arithmetic that is accurate on the range of a percentage: \<open>val\<close> reads a float as
  a real number; the literals \<open>0\<close>, \<open>0.5\<close> and \<open>100\<close> are exact; a quotient of two lengths,
  a sum and a product of operands of magnitude up to \<open>200\<close> are within a thousandth of the
  real result; \<open>round(x, 2)\<close> moves \<open>x\<close> by half a hundredth at most, up to the same
  error. IEEE double precision is accurate in this sense by a wide margin.
\<close>

definition accurate :: "'f float_ops \<Rightarrow> ('f \<Rightarrow> real) \<Rightarrow> bool" where
  "accurate F val \<longleftrightarrow>
     val (fl_lit F 0) = 0 \<and> val (fl_lit F (1 / 2)) = 1 / 2 \<and> val (fl_lit F 100) = 100
     \<and> (\<forall>m n. 0 < n \<and> m \<le> n \<longrightarrow> \<bar>val (fl_truediv F m n) - real m / real n\<bar> \<le> 1 / 1000)
     \<and> (\<forall>a b. \<bar>val a\<bar> \<le> 200 \<and> \<bar>val b\<bar> \<le> 200 \<longrightarrow>
            \<bar>val (fl_add F a b) - (val a + val b)\<bar> \<le> 1 / 1000)
     \<and> (\<forall>a b. \<bar>val a\<bar> \<le> 200 \<and> \<bar>val b\<bar> \<le> 200 \<longrightarrow>
            \<bar>val (fl_mul F a b) - val a * val b\<bar> \<le> 1 / 1000)
     \<and> (\<forall>a. \<bar>val a\<bar> \<le> 200 \<longrightarrow> \<bar>val (fl_round F a 2) - val a\<bar> \<le> 1 / 200 + 1 / 1000)"




section \<open>Characters\<close>

lemma is_upper_code:
  "is_upper c \<longleftrightarrow> (65 \<le> (of_char c :: nat) \<and> (of_char c :: nat) \<le> 90)
     \<or> (192 \<le> (of_char c :: nat) \<and> (of_char c :: nat) \<le> 222 \<and> (of_char c :: nat) \<noteq> 215)"
proof -
  have "c \<noteq> CHR 0xD7 \<longleftrightarrow> (of_char c :: nat) \<noteq> of_char (CHR 0xD7)"
    by (simp only: of_char_eq_iff)
  then show ?thesis
    by (simp add: is_upper_def is_ascii_upper_def is_latin1_upper_def less_eq_char_def)
qed

lemma not_upper_lower_char: "\<not> is_upper (lower_char c)"
proof (cases "is_upper c")
  case False
  then show ?thesis by (simp add: lower_char_def)
next
  case True
  then have r: "(65 \<le> (of_char c :: nat) \<and> (of_char c :: nat) \<le> 90)
     \<or> (192 \<le> (of_char c :: nat) \<and> (of_char c :: nat) \<le> 222)"
    by (auto simp: is_upper_code)
  then have "(of_char (char_of (of_char c + (32::nat))) :: nat) = of_char c + 32"
    by (simp only: of_char_of) auto
  with r True show ?thesis
    by (auto simp add: lower_char_def is_upper_code)
qed

lemma ascii_upper_word: "is_ascii_upper c \<Longrightarrow> is_word_char c"
  by (simp add: is_word_char_def is_ascii_letter_def)

lemma ascii_upper_is_upper: "is_ascii_upper c \<Longrightarrow> is_upper c"
  by (simp add: is_upper_def)

lemma re_match_le: "re_match p prev s = Some n \<Longrightarrow> n \<le> length s"
proof (induction p prev s arbitrary: n rule: re_match.induct)
  case (6 P ps prev c s)
  then show ?case by (auto split: if_splits option.splits)
qed (auto split: if_splits)

lemma char_before_Cons: "char_before (Some c) pre = char_before prev (c # pre)"
  by (simp add: char_before_def)

lemma re_scan_sound:
  "x \<in> set (re_scan p k prev s) \<Longrightarrow>
     \<exists>pre post. s = pre @ x @ post \<and> re_match p (char_before prev pre) (x @ post) = Some (length x)"
proof (induction s arbitrary: k prev)
  case Nil
  then obtain m where "x = []" "re_match p prev [] = Some m"
    by (auto split: if_splits)
  moreover from this have "m = 0" using re_match_le by fastforce
  ultimately show ?case by (simp add: char_before_def)
next
  case (Cons c s)
  have shift: "\<exists>pre post. c # s = pre @ x @ post \<and> re_match p (char_before prev pre) (x @ post) = Some (length x)"
    if "x \<in> set (re_scan p j (Some c) s)" for j
  proof -
    from Cons.IH[OF that] obtain pre post where
      "s = pre @ x @ post" "re_match p (char_before (Some c) pre) (x @ post) = Some (length x)" by blast
    then have "c # s = (c # pre) @ x @ post \<and> re_match p (char_before prev (c # pre)) (x @ post) = Some (length x)"
      by (simp add: char_before_Cons[symmetric])
    then show ?thesis by blast
  qed
  show ?case
  proof (cases "0 < k")
    case True
    with Cons.prems show ?thesis using shift by simp
  next
    case False
    show ?thesis
    proof (cases "re_match p prev (c # s)")
      case None
      with False Cons.prems show ?thesis using shift by simp
    next
      case (Some n)
      with False Cons.prems have "x = take n (c # s) \<or> x \<in> set (re_scan p (n - 1) (Some c) s)"
        by simp
      then show ?thesis
      proof
        assume x: "x = take n (c # s)"
        from Some have "n \<le> length (c # s)" by (rule re_match_le)
        with x have "length x = n" by simp
        with x Some have "c # s = [] @ x @ drop n (c # s) \<and>
            re_match p (char_before prev []) (x @ drop n (c # s)) = Some (length x)"
          by (simp add: char_before_def)
        then show ?thesis by blast
      qed (rule shift)
    qed
  qed
qed

section \<open>The matcher\<close>

text \<open>A greedy \<open>+\<close> followed by \<open>\b\<close>: what a match says, and when there is one.\<close>

lemma plus_boundary_sound:
  "re_match [OneOrMore P, WordBoundary] prev s = Some n \<Longrightarrow>
     0 < n \<and> n \<le> length s \<and> (\<forall>c\<in>set (take n s). P c)
     \<and> at_boundary (Some (s ! (n - 1))) (drop n s)"
proof (induction s arbitrary: prev n)
  case Nil
  then show ?case by simp
next
  case (Cons c s)
  from Cons.prems have Pc: "P c" by (simp split: if_splits)
  show ?case
  proof (cases "re_match [OneOrMore P, WordBoundary] (Some c) s")
    case None
    with Cons.prems Pc have "n = 1" "at_boundary (Some c) s"
      by (auto split: if_splits)
    with Pc show ?thesis by simp
  next
    case (Some m)
    with Cons.prems Pc have n: "n = Suc m" by simp
    from Cons.IH[OF Some] have "0 < m" "m \<le> length s" "\<forall>c\<in>set (take m s). P c"
      "at_boundary (Some (s ! (m - 1))) (drop m s)" by auto
    with n Pc show ?thesis by (cases m) auto
  qed
qed

lemma plus_boundary_complete:
  "\<lbrakk>run \<noteq> []; \<forall>c\<in>set run. P c; post = [] \<or> \<not> P (hd post);
    at_boundary (Some (last run)) post\<rbrakk>
   \<Longrightarrow> re_match [OneOrMore P, WordBoundary] prev (run @ post) = Some (length run)"
proof (induction run arbitrary: prev)
  case Nil
  then show ?case by simp
next
  case (Cons c run)
  show ?case
  proof (cases "run = []")
    case True
    have "re_match [OneOrMore P, WordBoundary] (Some c) post = None"
      using Cons.prems(3) by (cases post) auto
    with True Cons.prems show ?thesis by simp
  next
    case False
    with Cons.prems have "re_match [OneOrMore P, WordBoundary] (Some c) (run @ post) = Some (length run)"
      by (intro Cons.IH) auto
    with Cons.prems show ?thesis by simp
  qed
qed

lemma abbrev_match_sound:
  assumes "re_match abbrev_pattern prev s = Some n"
  shows "2 \<le> n \<and> n \<le> length s \<and> (\<forall>c\<in>set (take n s). is_ascii_upper c)
         \<and> \<not> word_before prev \<and> \<not> word_after (drop n s)"
proof -
  from assms obtain c s' m where s: "s = c # s'" and c: "is_ascii_upper c"
    and b: "at_boundary prev s"
    and m: "re_match [OneOrMore is_ascii_upper, WordBoundary] (Some c) s' = Some m" and n: "n = Suc m"
    by (cases s) (auto simp: abbrev_pattern_def split: if_splits)
  from plus_boundary_sound[OF m] have m0: "0 < m" and ml: "m \<le> length s'"
    and all: "\<forall>c\<in>set (take m s'). is_ascii_upper c"
    and b2: "at_boundary (Some (s' ! (m - 1))) (drop m s')" by auto
  from m0 ml have "take m s' ! (m - 1) = s' ! (m - 1)" "m - 1 < length (take m s')"
    by simp_all
  then have "s' ! (m - 1) \<in> set (take m s')"
    by (metis nth_mem)
  with all have "is_word_char (s' ! (m - 1))" by (auto intro: ascii_upper_word)
  with b2 have after: "\<not> word_after (drop m s')" by (simp add: at_boundary_def word_before_def)
  from c s b have before: "\<not> word_before prev"
    by (simp add: at_boundary_def word_after_def ascii_upper_word)
  from s n m0 ml all c after before show ?thesis by auto
qed

lemma abbrev_match_complete:
  assumes "2 \<le> length run" "\<forall>c\<in>set run. is_ascii_upper c"
    "\<not> word_before prev" "\<not> word_after post"
  shows "re_match abbrev_pattern prev (run @ post) = Some (length run)"
proof -
  from assms(1) obtain c run' where run: "run = c # run'" and ne: "run' \<noteq> []"
    by (cases run) fastforce+
  from assms(2) run have c: "is_ascii_upper c" and all: "\<forall>c\<in>set run'. is_ascii_upper c" by auto
  from all ne have "is_word_char (last run')" by (auto intro: ascii_upper_word)
  with assms(4) have b2: "at_boundary (Some (last run')) post"
    by (simp add: at_boundary_def word_before_def)
  from assms(4) have nx: "post = [] \<or> \<not> is_ascii_upper (hd post)"
    by (cases post) (auto simp: word_after_def dest: ascii_upper_word)
  have "re_match [OneOrMore is_ascii_upper, WordBoundary] (Some c) (run' @ post) = Some (length run')"
    by (rule plus_boundary_complete[OF ne all nx b2])
  moreover from c assms(3) run have "at_boundary prev (run @ post)"
    by (simp add: at_boundary_def word_after_def ascii_upper_word)
  ultimately show ?thesis using c run by (simp add: abbrev_pattern_def)
qed

lemma re_scan_reaches:
  assumes chars: "\<And>prev s n. re_match p prev s = Some n \<Longrightarrow> \<forall>c\<in>set (take n s). Q c"
  shows "\<lbrakk>pre = [] \<or> \<not> Q (last pre); k \<le> length pre - 1\<rbrakk>
    \<Longrightarrow> set (re_scan p 0 (char_before prev pre) rest) \<subseteq> set (re_scan p k prev (pre @ rest))"
proof (induction pre arbitrary: k prev)
  case Nil
  then show ?case by (simp add: char_before_def)
next
  case (Cons c pre)
  have last: "pre = [] \<or> \<not> Q (last pre)" using Cons.prems(1) by auto
  have step: "set (re_scan p 0 (char_before prev (c # pre)) rest) \<subseteq> set (re_scan p j (Some c) (pre @ rest))"
    if "j \<le> length pre - 1" for j
    using Cons.IH[OF last that, of "Some c"] by (cases "pre = []") (simp_all add: char_before_def)
  show ?case
  proof (cases "0 < k")
    case True
    with Cons.prems(2) have "k - 1 \<le> length pre - 1" by simp
    from step[OF this] True show ?thesis by simp
  next
    case False
    show ?thesis
    proof (cases "re_match p prev (c # pre @ rest)")
      case None
      with False step[of 0] show ?thesis by simp
    next
      case (Some n)
      have "n \<le> length pre"
      proof (rule ccontr)
        assume "\<not> n \<le> length pre"
        then have "length (c # pre) \<le> n" by simp
        then have "take n ((c # pre) @ rest) = (c # pre) @ take (n - length (c # pre)) rest"
          by (simp only: take_append take_all)
        moreover have "last (c # pre) \<in> set (c # pre)" by (rule last_in_set) simp
        ultimately have "last (c # pre) \<in> set (take n ((c # pre) @ rest))"
          by (simp only: set_append UnI1)
        with chars[OF Some] have "Q (last (c # pre))" by simp
        with Cons.prems(1) show False by simp
      qed
      then have "n - 1 \<le> length pre - 1" by simp
      from step[OF this] Some False show ?thesis by auto
    qed
  qed
qed

lemma re_scan_head:
  "\<lbrakk>re_match p prev s = Some n; s \<noteq> []\<rbrakk> \<Longrightarrow> take n s \<in> set (re_scan p 0 prev s)"
  by (cases s) auto

lemma abbrev_found:
  assumes "2 \<le> length run" "\<forall>c\<in>set run. is_ascii_upper c"
    "pre = [] \<or> \<not> is_word_char (last pre)" "post = [] \<or> \<not> is_word_char (hd post)"
  shows "run \<in> set (re_findall abbrev_pattern (pre @ run @ post))"
proof -
  have wb: "\<not> word_before (char_before None pre)"
    using assms(3) by (auto simp: char_before_def word_before_def)
  have wa: "\<not> word_after post"
    using assms(4) by (cases post) (auto simp: word_after_def)
  have m: "re_match abbrev_pattern (char_before None pre) (run @ post) = Some (length run)"
    by (rule abbrev_match_complete[OF assms(1,2) wb wa])
  from assms(1) have "run @ post \<noteq> []" by auto
  from re_scan_head[OF m this]
  have "run \<in> set (re_scan abbrev_pattern 0 (char_before None pre) (run @ post))" by simp
  moreover have "set (re_scan abbrev_pattern 0 (char_before None pre) (run @ post))
      \<subseteq> set (re_scan abbrev_pattern 0 None (pre @ run @ post))"
  proof (rule re_scan_reaches[where Q = is_word_char])
    fix prev s n assume "re_match abbrev_pattern prev s = Some n"
    from abbrev_match_sound[OF this] show "\<forall>c\<in>set (take n s). is_word_char c"
      by (auto intro: ascii_upper_word)
  qed (use assms(3) in auto)
  ultimately show ?thesis by (auto simp: re_findall_def)
qed

lemma abbrev_matches:
  assumes "x \<in> set (re_findall abbrev_pattern text)"
  shows "\<exists>pre post. text = pre @ x @ post \<and> 2 \<le> length x \<and> (\<forall>c\<in>set x. is_ascii_upper c)
     \<and> (pre = [] \<or> \<not> is_word_char (last pre)) \<and> (post = [] \<or> \<not> is_word_char (hd post))"
proof -
  from assms obtain pre post where t: "text = pre @ x @ post"
    and m: "re_match abbrev_pattern (char_before None pre) (x @ post) = Some (length x)"
    unfolding re_findall_def by (blast dest: re_scan_sound)
  from abbrev_match_sound[OF m]
  have "2 \<le> length x" "\<forall>c\<in>set x. is_ascii_upper c" "\<not> word_before (char_before None pre)"
    "\<not> word_after post" by auto
  moreover from this have "pre = [] \<or> \<not> is_word_char (last pre)"
    by (auto simp: char_before_def word_before_def)
  moreover from \<open>\<not> word_after post\<close> have "post = [] \<or> \<not> is_word_char (hd post)"
    by (cases post) (auto simp: word_after_def)
  ultimately show ?thesis using t by blast
qed

lemma re_escape_match:
  "re_match (re_escape skill @ ps) prev s = Some n \<Longrightarrow> take (length skill) s = skill"
proof (induction skill arbitrary: prev s n)
  case Nil
  then show ?case by simp
next
  case (Cons a skill)
  then show ?case
    by (cases s) (auto simp: re_escape_def split: if_splits)
qed

lemma re_search_from_sublist:
  "re_search_from (skill_pattern skill) prev s \<Longrightarrow> \<exists>pre post. s = pre @ skill @ post"
proof (induction s arbitrary: prev)
  case Nil
  then obtain n where "re_match (re_escape skill @ [WordBoundary]) prev [] = Some n"
    by (auto simp: skill_pattern_def split: if_splits)
  from re_escape_match[OF this] show ?case by simp
next
  case (Cons c s)
  show ?case
  proof (cases "re_match (skill_pattern skill) prev (c # s)")
    case (Some n)
    then have "re_match (re_escape skill @ [WordBoundary]) prev (c # s) = Some n"
      by (auto simp: skill_pattern_def split: if_splits)
    from re_escape_match[OF this] have "c # s = [] @ skill @ drop (length skill) (c # s)"
      by (metis append_Nil append_take_drop_id)
    then show ?thesis by blast
  next
    case None
    with Cons.prems have "re_search_from (skill_pattern skill) (Some c) s" by simp
    from Cons.IH[OF this] obtain pre post where "s = pre @ skill @ post" by blast
    then have "c # s = (c # pre) @ skill @ post" by simp
    then show ?thesis by blast
  qed
qed

lemma known_skills_chars:
  "x \<in> set (known_skills s) \<Longrightarrow> set x \<subseteq> set s"
  by (auto simp: known_skills_def re_search_def dest!: re_search_from_sublist)

lemma known_skills_vocabulary: "set (known_skills s) \<subseteq> all_skills"
  by (auto simp: known_skills_def all_skills_def)

lemma phrases_vocabulary: "set (phrases s) \<subseteq> all_skills"
  by (auto simp: phrases_def Let_def)

lemma findall_chars: "x \<in> set (re_findall p s) \<Longrightarrow> set x \<subseteq> set s"
  unfolding re_findall_def by (auto dest!: re_scan_sound)

lemma join_space_chars: "set (join_space ws) \<subseteq> (\<Union>w\<in>set ws. set w) \<union> {CHR '' ''}"
  by (induction ws rule: join_space.induct) auto

lemma ngrams_chars:
  assumes "x \<in> set (ngrams n ws)"
  shows "set x \<subseteq> (\<Union>w\<in>set ws. set w) \<union> {CHR '' ''}"
proof -
  from assms obtain i where "x = join_space (take n (drop i ws))"
    by (auto simp: ngrams_def)
  moreover have "set (take n (drop i ws)) \<subseteq> set ws"
    by (meson set_drop_subset set_take_subset subset_trans)
  ultimately show ?thesis using join_space_chars[of "take n (drop i ws)"] by blast
qed

lemma phrases_chars:
  assumes "x \<in> set (phrases s)"
  shows "set x \<subseteq> set s \<union> {CHR '' ''}"
proof -
  from assms have "x \<in> set (ngrams 2 (re_findall word_pattern s)) \<or>
      x \<in> set (ngrams 3 (re_findall word_pattern s))"
    by (auto simp: phrases_def Let_def)
  then have "set x \<subseteq> (\<Union>w\<in>set (re_findall word_pattern s). set w) \<union> {CHR '' ''}"
    by (auto dest: ngrams_chars)
  with findall_chars show ?thesis by fastforce
qed

lemma lower_is_lowercase: "is_lowercase (lower s)"
  by (simp add: is_lowercase_def lower_def not_upper_lower_char)

lemma space_not_upper: "\<not> is_upper (CHR '' '')"
  by (simp add: is_upper_def is_ascii_upper_def is_latin1_upper_def)

lemma extract_skills_str:
  "extract_skills (PyStr text) =
     Inr (if text = [] then {}
          else set (known_skills (lower text)) \<union> set (abbreviations text) \<union> set (phrases (lower text)))"
  by (simp add: extract_skills_def)

lemma extracted_lowercase:
  assumes "extract_skills v = Inr S" "x \<in> S"
  shows "is_lowercase x"
proof (cases v)
  case (PyStr t)
  with assms have "t \<noteq> []" and
    x: "x \<in> set (known_skills (lower t)) \<or> x \<in> set (abbreviations t) \<or> x \<in> set (phrases (lower t))"
    by (auto simp: extract_skills_str split: if_splits)
  have low: "\<forall>c\<in>set (lower t). \<not> is_upper c"
    using lower_is_lowercase[of t] by (simp add: is_lowercase_def)
  from x show ?thesis
  proof (elim disjE)
    assume "x \<in> set (known_skills (lower t))"
    from known_skills_chars[OF this] low show ?thesis by (auto simp: is_lowercase_def)
  next
    assume "x \<in> set (abbreviations t)"
    then obtain m where "x = lower m" by (auto simp: abbreviations_def)
    then show ?thesis by (simp add: lower_is_lowercase)
  next
    assume "x \<in> set (phrases (lower t))"
    from phrases_chars[OF this] low space_not_upper show ?thesis
      by (auto simp: is_lowercase_def)
  qed
next
  case PyNone
  with assms show ?thesis by (simp add: extract_skills_def)
next
  case (PyInt i)
  with assms show ?thesis by (simp add: extract_skills_def split: if_splits)
qed

lemma known_skills_iff:
  "x \<in> set (known_skills s) \<longleftrightarrow> x \<in> all_skills \<and> re_search (skill_pattern x) s"
  by (auto simp: known_skills_def all_skills_def)

lemma extract_skills_finite: "extract_skills v = Inr S \<Longrightarrow> finite S"
  by (cases v) (auto simp: extract_skills_def split: if_splits)

lemma upper_run_extracted:
  assumes "whole_word_upper_run pre run post"
  shows "lower run \<in> set (abbreviations (pre @ run @ post))"
proof -
  from assms have "run \<in> set (re_findall abbrev_pattern (pre @ run @ post))"
    by (auto simp: whole_word_upper_run_def intro!: abbrev_found)
  moreover from assms have "2 \<le> length (lower run)"
    by (simp add: whole_word_upper_run_def lower_def)
  ultimately show ?thesis by (auto simp: abbreviations_def)
qed

lemma abbreviations_runs:
  assumes "x \<in> set (abbreviations t)"
  shows "\<exists>pre run post. t = pre @ run @ post \<and> whole_word_upper_run pre run post \<and> x = lower run"
proof -
  from assms obtain m where m: "m \<in> set (re_findall abbrev_pattern t)" and x: "x = lower m"
    by (auto simp: abbreviations_def)
  from abbrev_matches[OF m] x show ?thesis
    unfolding whole_word_upper_run_def by blast
qed

lemma skills_Go_SQL: "extract_skills (PyStr ''Go SQL'') = Inr {''go'', ''sql''}"
  by code_simp

lemma skills_SQL: "extract_skills (PyStr ''SQL'') = Inr {''sql''}"
  by code_simp

lemma skills_CEO: "extract_skills (PyStr ''CEO'') = Inr {''ceo''}"
  by code_simp


text \<open>The similarity on two strings.\<close>

lemma calculate_similarity_str:
  "calculate_similarity F cosine (PyStr a) (PyStr b) =
     Inr (if a = [] \<or> b = [] then fl_lit F 0
          else (case cosine (lower a) (lower b) of Some s \<Rightarrow> s | None \<Rightarrow> fl_lit F 0))"
  by (simp add: calculate_similarity_def split: option.splits)

lemma calculate_similarity_empty:
  "calculate_similarity F cosine (PyStr []) job_text = Inr (fl_lit F 0)"
  "calculate_similarity F cosine resume_text (PyStr []) = Inr (fl_lit F 0)"
  by (simp_all add: calculate_similarity_def)


section \<open>The scenario and accurate arithmetic\<close>

text \<open>Exact arithmetic is accurate: \<open>round_half_even\<close> moves a number by a half at most.\<close>

lemma round_half_even_near:
  "of_int (round_half_even x) - x \<le> 1 / 2" "x - of_int (round_half_even x) \<le> 1 / 2"
proof -
  define f where "f = \<lfloor>x\<rfloor>"
  have f1: "of_int f \<le> x" and f2: "x < of_int f + 1"
    unfolding f_def by linarith+
  have r: "round_half_even x =
      (if x - of_int f < 1 / 2 then f else if 1 / 2 < x - of_int f then f + 1
       else if even f then f else f + 1)"
    unfolding round_half_even_def f_def Let_def ..
  consider "x - of_int f < 1 / 2" | "1 / 2 < x - of_int f" | "x - of_int f = 1 / 2"
    by linarith
  then have "of_int (round_half_even x) - x \<le> 1 / 2 \<and> x - of_int (round_half_even x) \<le> 1 / 2"
  proof cases
    case 1
    then have "round_half_even x = f" by (simp add: r)
    with 1 f1 show ?thesis by simp
  next
    case 2
    then have "round_half_even x = f + 1" by (simp add: r)
    with 2 f2 show ?thesis by simp
  next
    case 3
    then have "round_half_even x = f \<or> round_half_even x = f + 1" by (simp add: r)
    with 3 show ?thesis by auto
  qed
  then show "of_int (round_half_even x) - x \<le> 1 / 2" "x - of_int (round_half_even x) \<le> 1 / 2"
    by simp_all
qed

lemma exact_round_near:
  "\<bar>(of_rat (fl_round exact_ops a 2) :: real) - of_rat a\<bar> \<le> 1 / 200"
proof -
  define r where "r = (of_int (round_half_even (a * 10 ^ 2)) :: rat)"
  have "r - a * 100 \<le> 1 / 2" "a * 100 - r \<le> 1 / 2"
    using round_half_even_near[of "a * 10 ^ 2"] by (simp_all add: r_def)
  then have "r / 100 - a \<le> 1 / 200" "a - r / 100 \<le> 1 / 200"
    by linarith+
  then have "(of_rat (r / 100 - a) :: real) \<le> of_rat (1 / 200)"
    "(of_rat (a - r / 100) :: real) \<le> of_rat (1 / 200)"
    by (simp_all only: of_rat_less_eq)
  then have "(of_rat (r / 100) :: real) - of_rat a \<le> 1 / 200"
    "(of_rat a :: real) - of_rat (r / 100) \<le> 1 / 200"
    by (simp_all add: of_rat_diff of_rat_divide)
  then have "\<bar>(of_rat (r / 100) :: real) - of_rat a\<bar> \<le> 1 / 200"
    by linarith
  moreover have "fl_round exact_ops a 2 = r / 100"
    by (simp add: exact_ops_def r_def)
  ultimately show ?thesis
    by (simp only:)
qed

lemma accurate_exact_ops: "accurate exact_ops of_rat"
proof -
  have "\<And>a. \<bar>(of_rat (fl_round exact_ops a 2) :: real) - of_rat a\<bar> \<le> 1 / 200 + 1 / 1000"
    using exact_round_near by (rule order_trans) simp
  moreover have "\<And>m n. (of_rat (fl_truediv exact_ops m n) :: real) = real m / real n"
    by (simp add: exact_ops_def of_rat_divide)
  moreover have "\<And>a b. (of_rat (fl_add exact_ops a b) :: real) = of_rat a + of_rat b"
    "\<And>a b. (of_rat (fl_mul exact_ops a b) :: real) = of_rat a * of_rat b"
    by (simp_all add: exact_ops_def of_rat_add of_rat_mult)
  moreover have "(of_rat (fl_lit exact_ops 0) :: real) = 0"
    "(of_rat (fl_lit exact_ops (1 / 2)) :: real) = 1 / 2"
    "(of_rat (fl_lit exact_ops 100) :: real) = 100"
    by (simp_all add: exact_ops_def of_rat_divide)
  ultimately show ?thesis
    unfolding accurate_def by simp
qed

text \<open>With similarity between \<open>-0.1\<close> and \<open>1.1\<close> and coverage \<open>2 / 3\<close>, the percentage of
  accurate arithmetic lies strictly between \<open>0\<close> and \<open>100\<close>: it is between \<open>27\<close> and \<open>89\<close>
  before \<open>round\<close>.\<close>

lemma example_percentage:
  assumes acc: "accurate F val" and s: "- (1 / 10) \<le> val sim" "val sim \<le> 11 / 10"
  shows "0 < val (spec_match_percentage F sim (fl_truediv F 2 3))
       \<and> val (spec_match_percentage F sim (fl_truediv F 2 3)) < 100"
proof -
  define half where "half = fl_lit F (1 / 2)"
  define hundred where "hundred = fl_lit F 100"
  define cov where "cov = fl_truediv F 2 3"
  define a1 where "a1 = fl_mul F sim half"
  define a2 where "a2 = fl_mul F cov half"
  define a3 where "a3 = fl_add F a1 a2"
  define a4 where "a4 = fl_mul F a3 hundred"
  from acc have h: "val half = 1 / 2" and hu: "val hundred = 100"
    by (simp_all add: accurate_def half_def hundred_def)
  from acc have mul: "\<And>a b. \<bar>val a\<bar> \<le> 200 \<Longrightarrow> \<bar>val b\<bar> \<le> 200 \<Longrightarrow>
      \<bar>val (fl_mul F a b) - val a * val b\<bar> \<le> 1 / 1000"
    unfolding accurate_def by blast
  from acc have add: "\<And>a b. \<bar>val a\<bar> \<le> 200 \<Longrightarrow> \<bar>val b\<bar> \<le> 200 \<Longrightarrow>
      \<bar>val (fl_add F a b) - (val a + val b)\<bar> \<le> 1 / 1000"
    unfolding accurate_def by blast
  from acc have rnd: "\<And>a. \<bar>val a\<bar> \<le> 200 \<Longrightarrow> \<bar>val (fl_round F a 2) - val a\<bar> \<le> 1 / 200 + 1 / 1000"
    unfolding accurate_def by blast
  from acc have "\<forall>m n. 0 < n \<and> m \<le> n \<longrightarrow> \<bar>val (fl_truediv F m n) - real m / real n\<bar> \<le> 1 / 1000"
    unfolding accurate_def by blast
  then have "(0::nat) < 3 \<and> (2::nat) \<le> 3 \<longrightarrow> \<bar>val (fl_truediv F 2 3) - real 2 / real 3\<bar> \<le> 1 / 1000"
    by blast
  then have dv: "\<bar>val (fl_truediv F 2 3) - 2 / 3\<bar> \<le> 1 / 1000"
    by simp
  from dv have c: "2 / 3 - 1 / 1000 \<le> val cov" "val cov \<le> 2 / 3 + 1 / 1000"
    unfolding cov_def by linarith+
  have hb: "\<bar>val half\<bar> \<le> 200" and hub: "\<bar>val hundred\<bar> \<le> 200"
    unfolding h hu by simp_all
  have sb: "\<bar>val sim\<bar> \<le> 200"
    using s by linarith
  have cb: "\<bar>val cov\<bar> \<le> 200"
    using c by linarith
  have "\<bar>val a1 - val sim * val half\<bar> \<le> 1 / 1000"
    unfolding a1_def using sb hb by (rule mul)
  then have "\<bar>val a1 - val sim * (1 / 2)\<bar> \<le> 1 / 1000"
    unfolding h .
  with s have b1: "- (51 / 1000) \<le> val a1" "val a1 \<le> 551 / 1000"
    by linarith+
  have "\<bar>val a2 - val cov * val half\<bar> \<le> 1 / 1000"
    unfolding a2_def using cb hb by (rule mul)
  then have "\<bar>val a2 - val cov * (1 / 2)\<bar> \<le> 1 / 1000"
    unfolding h .
  with c have b2: "1 / 3 - 2 / 1000 \<le> val a2" "val a2 \<le> 1 / 3 + 2 / 1000"
    by linarith+
  have a1b: "\<bar>val a1\<bar> \<le> 200" and a2b: "\<bar>val a2\<bar> \<le> 200"
    using b1 b2 by linarith+
  have "\<bar>val a3 - (val a1 + val a2)\<bar> \<le> 1 / 1000"
    unfolding a3_def using a1b a2b by (rule add)
  with b1 b2 have b3: "279 / 1000 \<le> val a3" "val a3 \<le> 888 / 1000"
    by linarith+
  have a3b: "\<bar>val a3\<bar> \<le> 200"
    using b3 by linarith
  have "\<bar>val a4 - val a3 * val hundred\<bar> \<le> 1 / 1000"
    unfolding a4_def using a3b hub by (rule mul)
  then have "\<bar>val a4 - val a3 * 100\<bar> \<le> 1 / 1000"
    unfolding hu .
  with b3 have b4: "27 \<le> val a4" "val a4 \<le> 89"
    by linarith+
  have a4b: "\<bar>val a4\<bar> \<le> 200"
    using b4 by linarith
  have "\<bar>val (fl_round F a4 2) - val a4\<bar> \<le> 1 / 200 + 1 / 1000"
    using a4b by (rule rnd)
  with b4 have "0 < val (fl_round F a4 2)" "val (fl_round F a4 2) < 100"
    by linarith+
  then show ?thesis
    by (simp add: spec_match_percentage_def a4_def a3_def a2_def a1_def cov_def half_def hundred_def)
qed

text \<open>The skills of the two texts of the scenario, and the result of \<open>analyze\<close> in terms of
  the skill sets and the similarity.\<close>

lemma example_resume_skills:
  "extract_skills (PyStr example_resume) = Inr {''docker'', ''python'', ''sql''}"
  by code_simp

lemma example_job_skills:
  "extract_skills (PyStr example_job) = Inr {''kubernetes'', ''python'', ''sql''}"
  by code_simp

lemma example_sets:
  "{''docker'', ''python'', ''sql''} \<inter> {''kubernetes'', ''python'', ''sql''} = {''python'', ''sql''}"
  "{''kubernetes'', ''python'', ''sql''} - {''python'', ''sql''} = {''kubernetes''}"
  "card {''python'', ''sql''} = 2" "card {''kubernetes'', ''python'', ''sql''} = 3"
  "sorted_list_of_set {''python'', ''sql''} = [''python'', ''sql'']"
  "sorted_list_of_set {''kubernetes''} = [''kubernetes'']"
  "sorted_list_of_set {''kubernetes'', ''python'', ''sql''} = [''kubernetes'', ''python'', ''sql'']"
  "sorted_list_of_set {''docker'', ''python'', ''sql''} = [''docker'', ''python'', ''sql'']"
  by code_simp+

lemma analyze_str:
  assumes "extract_skills (PyStr r) = Inr rs" "extract_skills (PyStr j) = Inr js"
    "calculate_similarity F cosine (PyStr r) (PyStr j) = Inr sim"
  shows "analyze F cosine (PyStr r) (PyStr j) =
    Inr \<lparr>match_percentage = spec_match_percentage F sim (spec_coverage F (rs \<inter> js) js),
         resume_skills = sorted_list_of_set rs,
         job_required_skills = sorted_list_of_set js,
         matching_skills = sorted_list_of_set (rs \<inter> js),
         missing_skills = sorted_list_of_set (js - rs \<inter> js),
         skill_count = \<lparr>resume = card rs, job_description = card js,
                        matching = card (rs \<inter> js), missing = card (js - rs \<inter> js)\<rparr>\<rparr>"
  using assms
  by (simp add: analyze_def Let_def find_matching_skills_def find_missing_skills_def
      spec_match_percentage_def spec_coverage_def)


section \<open>Correctly rounded arithmetic\<close>









section \<open>The vocabulary is not all lowercase\<close>

text \<open>
  C2. The claim: every term stored in \<open>all_skills\<close> is a lowercase string. The code
  stores \<open>Golang\<close> and \<open>Go\<close> with a capital letter among the common skills. The
  matcher compares the vocabulary with the lower-cased text, so the entry \<open>Golang\<close>
  never matches: a text that names Golang yields no skill.
\<close>

theorem vocabulary_has_capitalised_terms:
  "''Golang'' \<in> all_skills \<and> ''Go'' \<in> all_skills
   \<and> \<not> is_lowercase ''Golang'' \<and> \<not> is_lowercase ''Go''
   \<and> extract_skills (PyStr ''I know Golang'') = Inr {}"
  by code_simp

theorem vocabulary_has_capitalised_terms_witness:
  "''Golang'' \<in> set common_tech_skills \<and> ''Golang'' \<in> all_skills
   \<and> \<not> is_lowercase ''Golang''"
proof -
  have "''Golang'' \<in> set common_tech_skills" by code_simp
  with vocabulary_has_capitalised_terms show ?thesis by simp
qed

section \<open>Every extracted skill is lowercase\<close>

text \<open>
  C3. For every input text, every element of the set that \<open>extract_skills\<close> returns is
  lowercase, and so is every term in the four skill lists of a result of \<open>analyze\<close>.
  The terms found in the text are pieces of the lower-cased text, and an abbreviation is
  lower-cased before it is added; the capitalised vocabulary entries are never found.
\<close>

theorem extracted_skills_lowercase:
  "(\<exists>S. extract_skills (PyStr text) = Inr S \<and> (\<forall>x\<in>S. is_lowercase x))
   \<and> (\<forall>res. analyze F cosine resume_text job_text = Inr res \<longrightarrow>
         (\<forall>x \<in> set (resume_skills res) \<union> set (job_required_skills res)
               \<union> set (matching_skills res) \<union> set (missing_skills res). is_lowercase x))"
proof (intro conjI allI impI)
  show "\<exists>S. extract_skills (PyStr text) = Inr S \<and> (\<forall>x\<in>S. is_lowercase x)"
    using extracted_lowercase[of "PyStr text"] by (simp add: extract_skills_str)
next
  fix res assume a: "analyze F cosine resume_text job_text = Inr res"
  then obtain rs js where rs: "extract_skills resume_text = Inr rs"
    and js: "extract_skills job_text = Inr js"
    and res: "set (resume_skills res) = rs" "set (job_required_skills res) = js"
      "set (matching_skills res) = rs \<inter> js" "set (missing_skills res) = js - rs \<inter> js"
    using extract_skills_finite
    by (auto simp: analyze_def Let_def find_matching_skills_def find_missing_skills_def
        split: sum.splits)
  from extracted_lowercase[OF rs] extracted_lowercase[OF js] res
  show "\<forall>x \<in> set (resume_skills res) \<union> set (job_required_skills res)
               \<union> set (matching_skills res) \<union> set (missing_skills res). is_lowercase x"
    by auto
qed

theorem extracted_skills_lowercase_witness:
  "(\<exists>S. extract_skills (PyStr ''Go SQL'') = Inr S \<and> ''go'' \<in> S \<and> is_lowercase ''go'')
   \<and> (\<exists>res. analyze exact_ops (\<lambda>a b. None) (PyStr ''Go SQL'') (PyStr ''SQL'') = Inr res
         \<and> ''sql'' \<in> set (matching_skills res) \<and> is_lowercase ''sql'')"
proof -
  have r: "analyze exact_ops (\<lambda>a b. None) (PyStr ''Go SQL'') (PyStr ''SQL'')
      = Inr \<lparr>match_percentage = 50, resume_skills = [''go'', ''sql''],
             job_required_skills = [''sql''], matching_skills = [''sql''], missing_skills = [],
             skill_count = \<lparr>resume = 2, job_description = 1, matching = 1, missing = 0\<rparr>\<rparr>"
    unfolding analyze_def skills_Go_SQL skills_SQL by code_simp
  from extracted_skills_lowercase[of "''Go SQL''" exact_ops "\<lambda>a b. None" "PyStr ''Go SQL''" "PyStr ''SQL''"]
  show ?thesis by (simp add: skills_Go_SQL r)
qed

section \<open>Whole-word matching of vocabulary terms\<close>

text \<open>
  The two example texts: \<open>Experienced in Python, and also Java.\<close> yields \<open>python\<close> and
  \<open>java\<close>, the comma and the full stop next to them notwithstanding, and both come from
  the pass over the vocabulary; \<open>javascript developer\<close> does not yield \<open>java\<close>, from that
  pass or from another.
\<close>

lemma whole_word_examples:
  "(\<exists>S. extract_skills (PyStr ''Experienced in Python, and also Java.'') = Inr S
        \<and> ''python'' \<in> S \<and> ''java'' \<in> S)
   \<and> ''python'' \<in> set (known_skills (lower ''Experienced in Python, and also Java.''))
   \<and> ''java'' \<in> set (known_skills (lower ''Experienced in Python, and also Java.''))
   \<and> (\<exists>S. extract_skills (PyStr ''javascript developer'') = Inr S \<and> ''java'' \<notin> S)
   \<and> ''java'' \<notin> set (known_skills (lower ''javascript developer''))"
proof -
  have v: "''python'' \<in> all_skills" "''java'' \<in> all_skills" by code_simp+
  have p: "re_search (skill_pattern ''python'') (lower ''Experienced in Python, and also Java.'')"
    by code_simp
  have j: "re_search (skill_pattern ''java'') (lower ''Experienced in Python, and also Java.'')"
    by code_simp
  have n: "\<not> re_search (skill_pattern ''java'') (lower ''javascript developer'')"
    by code_simp
  have a: "abbreviations ''javascript developer'' = []" by code_simp
  have w: "re_findall word_pattern (lower ''javascript developer'') = [''javascript'', ''developer'']"
    by code_simp
  have g: "''javascript developer'' \<notin> all_skills" by code_simp
  have ph: "phrases (lower ''javascript developer'') = []"
    unfolding phrases_def w using g by (simp add: ngrams_def)
  from v p j n a ph show ?thesis
    by (simp add: extract_skills_str known_skills_iff)
qed

text \<open>
  C4. Exact-term matching is meant to be bounded by whole words: punctuation next to a
  term does not prevent a match, and a term is not matched inside a longer word. The
  pattern is the term between two \<open>\b\<close>, and a \<open>\b\<close> after a character that is no word
  character asks for a word character to follow. So the vocabulary terms \<open>c++\<close> and \<open>c#\<close>
  are not found where they stand as words, with punctuation next to them: the text
  \<open>Experienced in C++, and also C#.\<close> yields no skill at all; and \<open>c++\<close> is found inside
  the longer word \<open>c++y\<close>.
\<close>

theorem exact_match_misses_terms:
  "''c++'' \<in> all_skills \<and> ''c#'' \<in> all_skills
   \<and> extract_skills (PyStr ''Experienced in C++, and also C#.'') = Inr {}
   \<and> extract_skills (PyStr ''c++y'') = Inr {''c++''}"
proof -
  have v: "''c++'' \<in> all_skills" "''c#'' \<in> all_skills"
    by code_simp+
  have m: "extract_skills (PyStr ''Experienced in C++, and also C#.'') = Inr {}"
    by code_simp
  have i: "extract_skills (PyStr ''c++y'') = Inr {''c++''}"
    by code_simp
  from v m i show ?thesis
    by (simp only: simp_thms)
qed

theorem exact_match_misses_terms_witness:
  "\<exists>S. extract_skills (PyStr ''Experienced in C++, and also C#.'') = Inr S
       \<and> ''c++'' \<notin> S \<and> ''c#'' \<notin> S"
  using exact_match_misses_terms by simp

section \<open>Runs of capital letters\<close>

text \<open>
  C5. For every input text, every whole-word run of two or more consecutive capital
  letters of the text as given appears, lower-cased, in the set that \<open>extract_skills\<close>
  returns, whether it is a vocabulary term or not; in particular the text
  \<open>Built CI/CD pipelines using AWS and GCP\<close> yields \<open>aws\<close> and \<open>gcp\<close>.
\<close>

theorem uppercase_runs_extracted:
  "(\<forall>pre run post. whole_word_upper_run pre run post \<longrightarrow>
       (\<exists>S. extract_skills (PyStr (pre @ run @ post)) = Inr S \<and> lower run \<in> S))
   \<and> (\<exists>S. extract_skills (PyStr ''Built CI/CD pipelines using AWS and GCP'') = Inr S
         \<and> ''aws'' \<in> S \<and> ''gcp'' \<in> S)"
proof (intro conjI allI impI)
  fix pre run post assume r: "whole_word_upper_run pre run post"
  then have "pre @ run @ post \<noteq> []" by (auto simp: whole_word_upper_run_def)
  with upper_run_extracted[OF r]
  show "\<exists>S. extract_skills (PyStr (pre @ run @ post)) = Inr S \<and> lower run \<in> S"
    by (simp add: extract_skills_str)
next
  have 1: "whole_word_upper_run ''Built CI/CD pipelines using '' ''AWS'' '' and GCP''"
    by code_simp
  have 2: "whole_word_upper_run ''Built CI/CD pipelines using AWS and '' ''GCP'' []"
    by code_simp
  have l: "lower ''AWS'' = ''aws''" "lower ''GCP'' = ''gcp''" by code_simp+
  from upper_run_extracted[OF 1] upper_run_extracted[OF 2] l
  show "\<exists>S. extract_skills (PyStr ''Built CI/CD pipelines using AWS and GCP'') = Inr S
         \<and> ''aws'' \<in> S \<and> ''gcp'' \<in> S"
    by (simp add: extract_skills_str)
qed

theorem uppercase_runs_extracted_witness:
  "whole_word_upper_run ''the '' ''CEO'' '', USA'' \<and> ''ceo'' \<notin> all_skills
   \<and> (\<exists>S. extract_skills (PyStr ''the CEO, USA'') = Inr S \<and> ''ceo'' \<in> S)"
proof -
  have r: "whole_word_upper_run ''the '' ''CEO'' '', USA''" by code_simp
  have l: "lower ''CEO'' = ''ceo''" by code_simp
  have n: "''ceo'' \<notin> all_skills" by code_simp
  from uppercase_runs_extracted r
  have "\<exists>S. extract_skills (PyStr (''the '' @ ''CEO'' @ '', USA'')) = Inr S \<and> lower ''CEO'' \<in> S"
    by blast
  with r n l show ?thesis by simp
qed

section \<open>Extraction returns on every string\<close>

text \<open>
  C9. \<open>extract_skills\<close> raises no exception on a string: on every string it returns a
  set, and on the empty string and on an absent text (\<open>None\<close>) it returns the empty set.
  No step of the function can fail on a string, so no fault arises that would have to be
  caught.
\<close>

theorem extract_skills_never_raises:
  "(\<forall>text. \<exists>S. extract_skills (PyStr text) = Inr S)
   \<and> extract_skills (PyStr []) = Inr {}
   \<and> extract_skills PyNone = Inr {}"
  by (simp add: extract_skills_def)

theorem extract_skills_never_raises_witness:
  "extract_skills (PyStr ''CEO'') = Inr {''ceo''} \<and> extract_skills (PyStr '''') = Inr {}"
proof -
  from extract_skills_never_raises obtain S where "extract_skills (PyStr ''CEO'') = Inr S"
    by blast
  with skills_CEO extract_skills_never_raises show ?thesis by simp
qed

text \<open>The function has no handler of its own: a non-empty argument that is no string
  fails in \<open>text.lower()\<close>, and the error reaches the caller.\<close>

lemma extract_skills_not_a_string: "extract_skills (PyInt 1) = Inl AttributeError"
  by (simp add: extract_skills_def)

section \<open>Nothing else is extracted\<close>

text \<open>
  C10. For every input text, every element of the set that \<open>extract_skills\<close> returns is
  a vocabulary term or the lower-casing of a whole-word run of two or more capital
  letters of the text; nothing else is emitted.
\<close>

theorem extracted_from_vocabulary_or_run:
  "\<exists>S. extract_skills (PyStr text) = Inr S
     \<and> (\<forall>x\<in>S. x \<in> all_skills
           \<or> (\<exists>pre run post. text = pre @ run @ post \<and> whole_word_upper_run pre run post
                \<and> x = lower run))"
proof (cases "text = []")
  case True
  then show ?thesis by (simp add: extract_skills_str)
next
  case False
  have "x \<in> all_skills
      \<or> (\<exists>pre run post. text = pre @ run @ post \<and> whole_word_upper_run pre run post \<and> x = lower run)"
    if "x \<in> set (known_skills (lower text)) \<union> set (abbreviations text) \<union> set (phrases (lower text))"
    for x
    using that known_skills_vocabulary phrases_vocabulary abbreviations_runs by blast
  with False show ?thesis by (simp add: extract_skills_str)
qed

theorem extracted_from_vocabulary_or_run_witness:
  "extract_skills (PyStr ''CEO'') = Inr {''ceo''} \<and> ''ceo'' \<notin> all_skills
   \<and> (\<exists>pre run post. ''CEO'' = pre @ run @ post \<and> whole_word_upper_run pre run post
         \<and> ''ceo'' = lower run)"
proof -
  have n: "''ceo'' \<notin> all_skills" by code_simp
  from extracted_from_vocabulary_or_run[of "''CEO''"] n show ?thesis
    by (simp add: skills_CEO)
qed

section \<open>The match percentage follows the formula\<close>

text \<open>
  C1. For all texts of the resume and of the job, \<open>analyze\<close> returns a result whose
  \<open>match_percentage\<close> is \<open>round((similarity * 0.5 + coverage * 0.5) * 100, 2)\<close>, where
  similarity is what \<open>calculate_similarity\<close> returns on the two texts and coverage is
  the number of matching skills over the number of job skills (\<open>0\<close> when the job has no
  skill); the matching skills are the skills of the resume that are skills of the job,
  and the missing skills are the job skills that do not match. This holds whatever the
  float operations and the library's similarity are.
\<close>

theorem analyze_formula:
  "\<exists>rs js sim res.
      extract_skills (PyStr resume_text) = Inr rs
    \<and> extract_skills (PyStr job_text) = Inr js
    \<and> calculate_similarity F cosine (PyStr resume_text) (PyStr job_text) = Inr sim
    \<and> analyze F cosine (PyStr resume_text) (PyStr job_text) = Inr res
    \<and> match_percentage res = spec_match_percentage F sim (spec_coverage F (rs \<inter> js) js)
    \<and> set (matching_skills res) = rs \<inter> js
    \<and> set (missing_skills res) = js - rs \<inter> js"
proof -
  obtain rs where rs: "extract_skills (PyStr resume_text) = Inr rs"
    by (simp add: extract_skills_str)
  obtain js where js: "extract_skills (PyStr job_text) = Inr js"
    by (simp add: extract_skills_str)
  obtain sim where sim: "calculate_similarity F cosine (PyStr resume_text) (PyStr job_text) = Inr sim"
    by (simp add: calculate_similarity_str)
  from extract_skills_finite[OF rs] extract_skills_finite[OF js]
  have fin: "finite (rs \<inter> js)" "finite (js - rs \<inter> js)" by auto
  show ?thesis
    using fin
    by (simp add: analyze_def rs js sim Let_def find_matching_skills_def find_missing_skills_def
        spec_match_percentage_def spec_coverage_def)
qed

theorem analyze_formula_witness:
  "\<exists>res. analyze exact_ops (\<lambda>a b. Some (1 / 2)) (PyStr ''Go SQL'') (PyStr ''SQL'') = Inr res
     \<and> match_percentage res = 75
     \<and> set (matching_skills res) = {''sql''} \<and> set (missing_skills res) = {}"
proof -
  have i: "{''go'', ''sql''} \<inter> {''sql''} = {''sql''}" by simp
  have mp: "spec_match_percentage exact_ops (1 / 2) (spec_coverage exact_ops {''sql''} {''sql''}) = 75"
    by (simp add: spec_match_percentage_def spec_coverage_def exact_ops_def round_half_even_def)
  from analyze_formula[of "''Go SQL''" "''SQL''" exact_ops "\<lambda>a b. Some (1 / 2)"]
  obtain rs js sim res where
    rs: "extract_skills (PyStr ''Go SQL'') = Inr rs" and
    js: "extract_skills (PyStr ''SQL'') = Inr js" and
    sim: "calculate_similarity exact_ops (\<lambda>a b. Some (1 / 2)) (PyStr ''Go SQL'') (PyStr ''SQL'') = Inr sim" and
    res: "analyze exact_ops (\<lambda>a b. Some (1 / 2)) (PyStr ''Go SQL'') (PyStr ''SQL'') = Inr res" and
    p: "match_percentage res = spec_match_percentage exact_ops sim (spec_coverage exact_ops (rs \<inter> js) js)" and
    m: "set (matching_skills res) = rs \<inter> js" and
    x: "set (missing_skills res) = js - rs \<inter> js"
    by blast
  from rs js have e: "rs = {''go'', ''sql''}" "js = {''sql''}"
    by (simp_all add: skills_Go_SQL skills_SQL)
  from sim have s: "sim = 1 / 2" by (simp add: calculate_similarity_str)
  from p m x show ?thesis unfolding e s i res using mp by simp
qed

section \<open>The end-to-end scenario\<close>

text \<open>
  C8. With the resume text "Proficient in Python and SQL, 3 years Docker experience" and
  the job text "Looking for a Python developer with SQL and Kubernetes skills",
  \<open>analyze\<close> returns a result whose matching skills are python and sql, whose missing
  skills are kubernetes alone, whose required skills include python, sql and kubernetes,
  and whose match percentage is strictly between \<open>0\<close> and \<open>100\<close>. The float operations
  are any that are accurate in the sense of \<open>accurate\<close>, and the similarity of the
  library, where it returns one, is any value between \<open>-0.1\<close> and \<open>1.1\<close> (a cosine of
  two vectors with no negative entry is between \<open>0\<close> and \<open>1\<close>); where the library raises,
  the similarity is \<open>0.0\<close>.
\<close>

theorem example_scenario:
  assumes acc: "accurate F val"
    and lib: "\<And>s. cosine (lower example_resume) (lower example_job) = Some s
               \<Longrightarrow> - (1 / 10) \<le> val s \<and> val s \<le> 11 / 10"
  shows "\<exists>res. analyze F cosine (PyStr example_resume) (PyStr example_job) = Inr res
      \<and> set (matching_skills res) = {''python'', ''sql''}
      \<and> set (missing_skills res) = {''kubernetes''}
      \<and> {''python'', ''sql'', ''kubernetes''} \<subseteq> set (job_required_skills res)
      \<and> 0 < val (match_percentage res) \<and> val (match_percentage res) < 100"
proof -
  from acc have zero: "val (fl_lit F 0) = 0"
    unfolding accurate_def by blast
  have "\<exists>s. calculate_similarity F cosine (PyStr example_resume) (PyStr example_job) = Inr s
      \<and> - (1 / 10) \<le> val s \<and> val s \<le> 11 / 10"
  proof (cases "cosine (lower example_resume) (lower example_job)")
    case None
    then show ?thesis
      by (simp add: calculate_similarity_str zero)
  next
    case (Some s)
    with lib[OF Some] show ?thesis
      by (simp add: calculate_similarity_str)
  qed
  then obtain s where cs: "calculate_similarity F cosine (PyStr example_resume) (PyStr example_job) = Inr s"
    and sb: "- (1 / 10) \<le> val s" "val s \<le> 11 / 10"
    by blast
  have cov: "spec_coverage F {''python'', ''sql''} {''kubernetes'', ''python'', ''sql''}
      = fl_truediv F 2 3"
    by (simp add: spec_coverage_def example_sets)
  note res = analyze_str[OF example_resume_skills example_job_skills cs]
  note pc = example_percentage[OF acc sb]
  show ?thesis
    unfolding res cov example_sets using pc by simp
qed

theorem example_scenario_witness:
  "\<exists>res. analyze exact_ops (\<lambda>a b. Some (7 / 20)) (PyStr example_resume) (PyStr example_job) = Inr res
      \<and> set (matching_skills res) = {''python'', ''sql''}
      \<and> set (missing_skills res) = {''kubernetes''}
      \<and> {''python'', ''sql'', ''kubernetes''} \<subseteq> set (job_required_skills res)
      \<and> 0 < real_of_rat (match_percentage res) \<and> real_of_rat (match_percentage res) < 100"
proof (rule example_scenario[OF accurate_exact_ops])
  fix s :: rat
  assume "Some (7 / 20) = Some s"
  then have e: "7 / 20 = s"
    by (simp only: option.inject)
  have "- (1 / 10) \<le> real_of_rat (7 / 20) \<and> real_of_rat (7 / 20) \<le> 11 / 10"
    by (simp add: of_rat_divide)
  then show "- (1 / 10) \<le> real_of_rat s \<and> real_of_rat s \<le> 11 / 10"
    unfolding e .
qed

section \<open>The bounds of the match percentage\<close>




section \<open>The similarity of a text with itself\<close>

text \<open>
  C7. \<open>calculate_similarity\<close> is to return \<open>0.0\<close> when an argument is the empty string
  (\<open>calculate_similarity_empty\<close> above) and \<open>1.0\<close> on two copies of a text, as on
  \<open>same text\<close>. On \<open>same text\<close> and \<open>same text\<close> the function returns the number that the
  library computes, as it is, neither rounded nor clamped; the library computes
  \<open>0.9999999999999998\<close> there, which is \<open>1 - 2 ^ -52\<close>, so the function does not return
  \<open>1.0\<close>.
\<close>

theorem similarity_is_library_value:
  "calculate_similarity F cosine (PyStr ''same text'') (PyStr ''same text'') =
     Inr (case cosine ''same text'' ''same text'' of Some s \<Rightarrow> s | None \<Rightarrow> fl_lit F 0)"
proof -
  have l: "lower ''same text'' = ''same text''"
    by code_simp
  show ?thesis
    unfolding calculate_similarity_str l by simp
qed

theorem similarity_is_library_value_witness:
  "calculate_similarity exact_ops (\<lambda>a b. Some (1 - 1 / 2 ^ 52)) (PyStr ''same text'') (PyStr ''same text'')
     = Inr (1 - 1 / 2 ^ 52)
   \<and> calculate_similarity exact_ops (\<lambda>a b. Some (1 - 1 / 2 ^ 52)) (PyStr ''same text'') (PyStr ''same text'')
     \<noteq> Inr 1"
  using similarity_is_library_value[of exact_ops "\<lambda>a b. Some (1 - 1 / 2 ^ 52)"] by simp

end
